theory Spec2Isabelle
  imports Main "HOL-Library.Word"
begin

section \<open>EraseX: certificate issuance, lookup and signature verification\<close>

text \<open>
  The repository has three Python files. \<^verbatim>\<open>app.py\<close> is a Flask application whose
  only state is the module-level dictionary \<^verbatim>\<open>wipe_history\<close>; \<^verbatim>\<open>verify.py\<close> is a
  command-line script that checks an RSA signature file against a certificate file;
  \<^verbatim>\<open>genkeys.py\<close> writes a fresh key pair. Nothing in the repository signs anything.

  Python \<^verbatim>\<open>bytes\<close> and \<^verbatim>\<open>str\<close> are both modelled as \<^typ>\<open>string\<close> (a list of
  8-bit characters).
\<close>

type_synonym bytes = string

subsection \<open>JSON values and Python truthiness\<close>

text \<open>
  \<^verbatim>\<open>request.get_json(force=True)\<close> returns whatever JSON value the body holds.
  A JSON number without fraction or exponent is a Python \<^verbatim>\<open>int\<close>; any other number
  is a \<^verbatim>\<open>float\<close>, kept here as its 64 IEEE bits. A parsed object is a \<^verbatim>\<open>dict\<close>,
  kept as the list of its items (keys distinct).
\<close>

datatype json =
    JNull
  | JBool bool
  | JInt int
  | JFloat "64 word"
  | JStr string
  | JArr "json list"
  | JObj "(string \<times> json) list"

text \<open>\<^verbatim>\<open>not v\<close> in Python is the negation of this.  A float is false exactly when it
  is \<open>+0.0\<close> or \<open>-0.0\<close>, that is when all bits but the sign bit are zero.\<close>

fun truthy :: "json \<Rightarrow> bool" where
  "truthy JNull = False"
| "truthy (JBool b) = b"
| "truthy (JInt i) = (i \<noteq> 0)"
| "truthy (JFloat w) = (take_bit 63 w \<noteq> 0)"
| "truthy (JStr s) = (s \<noteq> [])"
| "truthy (JArr xs) = (xs \<noteq> [])"
| "truthy (JObj kvs) = (kvs \<noteq> [])"

subsection \<open>Exceptions and responses\<close>

datatype exn =
    BadRequest
  | AttributeError
  | OSError
  | FileNotFoundError
  | ValueError
  | TypeError
  | InvalidSignature

text \<open>The pages are kept by their variable parts, not as HTML text.\<close>

datatype page =
    NotFoundPage string
  | VerifiedPage string json string string string

datatype response =
    JsonResponse nat json
  | HtmlResponse nat page
  | Abort nat string
  | SendFile string

fun status :: "response \<Rightarrow> nat" where
  "status (JsonResponse s _) = s"
| "status (HtmlResponse s _) = s"
| "status (Abort s _) = s"
| "status (SendFile _) = 200"

text \<open>A field of a JSON response body; \<open>None\<close> when the body has no such key.\<close>

fun response_field :: "response \<Rightarrow> string \<Rightarrow> json option" where
  "response_field (JsonResponse _ (JObj kvs)) k = map_of kvs k"
| "response_field _ _ = None"

subsection \<open>The registry \<^verbatim>\<open>wipe_history\<close>\<close>

record entry =
  drive :: json
  pre_hash :: string
  post_hash :: string
  timestamp :: string
  file_path :: string

type_synonym registry = "string \<rightharpoonup> entry"

subsection \<open>What issuance takes from outside\<close>

text \<open>
  \<^verbatim>\<open>hashlib.sha256(b).hexdigest()\<close>, \<^verbatim>\<open>uuid.uuid4()\<close>, \<^verbatim>\<open>datetime.now().isoformat()\<close>
  and the outcome of writing the QR image and the PDF are not code of the repository:
  one call of \<^verbatim>\<open>api_wipe_drive\<close> reads them from this record.
\<close>

record env =
  sha256_hexdigest :: "bytes \<Rightarrow> string"
  uuid4 :: "128 word"
  now_isoformat :: string
  pdf_failure :: bool

subsection \<open>\<^verbatim>\<open>str(uuid.uuid4())[:8]\<close>\<close>

definition hex_digit :: "nat \<Rightarrow> char" where
  "hex_digit d = ''0123456789abcdef'' ! d"

text \<open>\<^verbatim>\<open>'%0kx' % v\<close> for \<open>v < 16 ^ k\<close>: the \<open>k\<close> low hexadecimal digits of \<open>v\<close>.\<close>

fun to_hex :: "nat \<Rightarrow> nat \<Rightarrow> string" where
  "to_hex 0 v = []"
| "to_hex (Suc k) v = to_hex k (v div 16) @ [hex_digit (v mod 16)]"

text \<open>\<^verbatim>\<open>UUID.__str__\<close>: the 32 hexadecimal digits of the 128-bit value, grouped
  8-4-4-4-12 with hyphens.\<close>

definition str_uuid :: "128 word \<Rightarrow> string" where
  "str_uuid u =
     (let h = to_hex 32 (unat u)
      in take 8 h @ ''-'' @ take 4 (drop 8 h) @ ''-'' @ take 4 (drop 12 h) @ ''-''
           @ take 4 (drop 16 h) @ ''-'' @ drop 20 h)"

subsection \<open>\<^verbatim>\<open>app.py\<close>\<close>

definition CERT_DIR :: string where
  "CERT_DIR = ''certificates''"

text \<open>
  \<^verbatim>\<open>generate_pdf_certificate\<close> draws the PDF and returns its path; it touches
  \<^verbatim>\<open>wipe_history\<close> nowhere. The model keeps the path it returns and the case that
  writing a file raises.
\<close>

definition generate_pdf_certificate :: "env \<Rightarrow> string \<Rightarrow> exn + string" where
  "generate_pdf_certificate e cert_id =
     (if pdf_failure e then Inl OSError
      else Inr (CERT_DIR @ ''/'' @ ''erasex_cert_'' @ cert_id @ ''.pdf''))"

definition demo_bytes :: bytes where
  "demo_bytes = ''DemoSensitiveDataForHashing''"

text \<open>\<^verbatim>\<open>b"\x00" * len(demo_bytes)\<close>, the buffer whose digest becomes \<^verbatim>\<open>post_hash\<close>.\<close>

definition wiped_bytes :: bytes where
  "wiped_bytes = replicate (length demo_bytes) (CHR 0x00)"

datatype request_body = Unparseable | Parsed json

text \<open>The text \<^verbatim>\<open>Please specify 'drive'\<close>; \<open>CHR 0x27\<close> is the apostrophe.\<close>

definition error_message :: string where
  "error_message = ''Please specify '' @ [CHR 0x27] @ ''drive'' @ [CHR 0x27]"

text \<open>
  \<^verbatim>\<open>api_wipe_drive\<close>. \<^verbatim>\<open>get_json\<close> raises \<^verbatim>\<open>BadRequest\<close> on a body that is not JSON;
  \<^verbatim>\<open>data.get\<close> exists only on a \<^verbatim>\<open>dict\<close>, so any other JSON value raises
  \<^verbatim>\<open>AttributeError\<close>. The result is the exception or the response, with the
  registry as the call leaves it.
\<close>

definition api_wipe_drive ::
  "env \<Rightarrow> registry \<Rightarrow> request_body \<Rightarrow> (exn + response) \<times> registry" where
  "api_wipe_drive e wipe_history body =
     (case body of
        Unparseable \<Rightarrow> (Inl BadRequest, wipe_history)
      | Parsed (JObj data) \<Rightarrow>
          (case map_of data ''drive'' of
             None \<Rightarrow>
               (Inr (JsonResponse 400 (JObj [(''error'', JStr error_message)])),
                wipe_history)
           | Some d \<Rightarrow>
               if \<not> truthy d then
                 (Inr (JsonResponse 400 (JObj [(''error'', JStr error_message)])),
                  wipe_history)
               else
                 let pre = sha256_hexdigest e demo_bytes;
                     post = sha256_hexdigest e wiped_bytes;
                     cert_id = take 8 (str_uuid (uuid4 e))
                 in (case generate_pdf_certificate e cert_id of
                       Inl x \<Rightarrow> (Inl x, wipe_history)
                     | Inr pdf_path \<Rightarrow>
                         (Inr (JsonResponse 200 (JObj
                            [(''drive'', d),
                             (''pre_hash'', JStr pre),
                             (''post_hash'', JStr post),
                             (''certificate_id'', JStr cert_id),
                             (''download_url'', JStr (''/download/'' @ cert_id))])),
                          wipe_history(cert_id \<mapsto>
                            \<lparr>drive = d, pre_hash = pre, post_hash = post,
                             timestamp = now_isoformat e, file_path = pdf_path\<rparr>))))
      | Parsed _ \<Rightarrow> (Inl AttributeError, wipe_history))"

text \<open>
  The two lookups. An entry is a dictionary of five keys, never empty, so
  \<^verbatim>\<open>not rec\<close> holds exactly when the id is absent. \<^verbatim>\<open>abort(404, ...)\<close> is kept as
  the 404 response Flask makes of it.
\<close>

definition download_certificate :: "registry \<Rightarrow> string \<Rightarrow> response" where
  "download_certificate wipe_history cert_id =
     (case wipe_history cert_id of
        None \<Rightarrow> Abort 404 ''Certificate not found''
      | Some r \<Rightarrow> SendFile (file_path r))"

definition verify :: "registry \<Rightarrow> string \<Rightarrow> response" where
  "verify wipe_history cert_id =
     (case wipe_history cert_id of
        None \<Rightarrow> HtmlResponse 404 (NotFoundPage cert_id)
      | Some r \<Rightarrow>
          HtmlResponse 200
            (VerifiedPage cert_id (drive r) (timestamp r) (pre_hash r) (post_hash r)))"

subsection \<open>\<^verbatim>\<open>verify.py\<close>\<close>

text \<open>
  The two calls into the \<^verbatim>\<open>cryptography\<close> package: \<^verbatim>\<open>load_pem_public_key\<close>, which
  returns a key or raises, and \<^verbatim>\<open>pubkey.verify(signature, data, PKCS1v15(), SHA256())\<close>,
  which returns (\<open>None\<close>) or raises.
\<close>

record 'k crypto =
  load_pem_public_key :: "bytes \<Rightarrow> exn + 'k"
  pubkey_verify :: "'k \<Rightarrow> bytes \<Rightarrow> bytes \<Rightarrow> exn option"

text \<open>The machine the script runs on: the server's registry, if one runs there, and
  the files.\<close>

record world =
  server :: registry
  files :: "string \<rightharpoonup> bytes"

text \<open>\<^verbatim>\<open>verify_certificate\<close>: the three \<^verbatim>\<open>open\<close> calls raise on a missing file, the key is
  loaded outside the \<^verbatim>\<open>try\<close>, and only \<^verbatim>\<open>InvalidSignature\<close> is caught.\<close>

definition verify_certificate ::
  "'k crypto \<Rightarrow> world \<Rightarrow> string \<Rightarrow> string \<Rightarrow> string \<Rightarrow> exn + bool" where
  "verify_certificate lib w cert_file sig_file pubkey_file =
     (case files w cert_file of
        None \<Rightarrow> Inl FileNotFoundError
      | Some cert_data \<Rightarrow>
          (case files w sig_file of
             None \<Rightarrow> Inl FileNotFoundError
           | Some signature \<Rightarrow>
               (case files w pubkey_file of
                  None \<Rightarrow> Inl FileNotFoundError
                | Some pem \<Rightarrow>
                    (case load_pem_public_key lib pem of
                       Inl x \<Rightarrow> Inl x
                     | Inr pubkey \<Rightarrow>
                         (case pubkey_verify lib pubkey signature cert_data of
                            None \<Rightarrow> Inr True
                          | Some x \<Rightarrow> if x = InvalidSignature then Inr False else Inl x)))))"


subsection \<open>Names for what issuance builds\<close>

text \<open>The id, the response and the registry entry that a successful call of
  \<^verbatim>\<open>api_wipe_drive\<close> builds from the environment and the \<^verbatim>\<open>drive\<close> value.\<close>

definition cert_id_of :: "env \<Rightarrow> string" where
  "cert_id_of e = take 8 (str_uuid (uuid4 e))"

definition issued_response :: "env \<Rightarrow> json \<Rightarrow> response" where
  "issued_response e d = JsonResponse 200 (JObj
        [(''drive'', d),
         (''pre_hash'', JStr (sha256_hexdigest e demo_bytes)),
         (''post_hash'', JStr (sha256_hexdigest e wiped_bytes)),
         (''certificate_id'', JStr (cert_id_of e)),
         (''download_url'', JStr (''/download/'' @ cert_id_of e))])"

definition issued_entry :: "env \<Rightarrow> json \<Rightarrow> entry" where
  "issued_entry e d =
        \<lparr>drive = d, pre_hash = sha256_hexdigest e demo_bytes,
         post_hash = sha256_hexdigest e wiped_bytes,
         timestamp = now_isoformat e,
         file_path = ''certificates/erasex_cert_'' @ cert_id_of e @ ''.pdf''\<rparr>"

subsection \<open>Concrete inputs\<close>

text \<open>
  The theorems below hold for every digest function. Where a concrete environment is
  needed, the digest is this stand-in (the bytes in hexadecimal), which is injective; it
  is not SHA-256.
\<close>

definition hex_stub :: "bytes \<Rightarrow> string" where
  "hex_stub b = concat (map (\<lambda>c. to_hex 2 (of_char c)) b)"

definition demo_env :: env where
  "demo_env = \<lparr>sha256_hexdigest = hex_stub, uuid4 = 0xa1b2c3d4e5f64a7b8c9d0e1f2a3b4c5d,
     now_isoformat = ''2024-01-01T00:00:00'', pdf_failure = False\<rparr>"

definition demo_data :: "(string \<times> json) list" where
  "demo_data = [(''drive'', JStr ''Drive D:'')]"

text \<open>
  A stand-in for the two library calls of \<^verbatim>\<open>verify.py\<close>, for concrete inputs only: a
  key file loads when it starts with the PEM header line, as in the library, and a
  signature is valid when it is the key's text followed by the data. The theorems hold
  for every library.
\<close>

definition demo_crypto :: "bytes crypto" where
  "demo_crypto =
     \<lparr>load_pem_public_key =
        (\<lambda>pem. if take 26 pem = ''-----BEGIN PUBLIC KEY-----''
               then Inr (drop 26 pem) else Inl ValueError),
      pubkey_verify =
        (\<lambda>k s d. if s = k @ d then None else Some InvalidSignature)\<rparr>"

definition demo_world :: world where
  "demo_world =
     \<lparr>server = Map.empty,
      files = [''cert.json'' \<mapsto> ''{}'', ''cert.sig'' \<mapsto> ''K{}'',
               ''operator_public.pem'' \<mapsto> ''-----BEGIN PUBLIC KEY-----K'']\<rparr>"

definition busy_world :: world where
  "busy_world =
     \<lparr>server = [''a1b2c3d4'' \<mapsto> issued_entry demo_env (JStr ''Drive D:'')],
      files = [''cert.json'' \<mapsto> ''{}'', ''cert.sig'' \<mapsto> ''K{}'',
               ''operator_public.pem'' \<mapsto> ''-----BEGIN PUBLIC KEY-----K'',
               ''notes.txt'' \<mapsto> ''x'']\<rparr>"

definition badkey_world :: world where
  "badkey_world =
     \<lparr>server = Map.empty,
      files = [''cert.json'' \<mapsto> ''{}'', ''cert.sig'' \<mapsto> ''K{}'',
               ''operator_public.pem'' \<mapsto> ''not a key'']\<rparr>"

definition tampered_world :: world where
  "tampered_world =
     \<lparr>server = Map.empty,
      files = [''cert.json'' \<mapsto> ''{x}'', ''cert.sig'' \<mapsto> ''K{}'',
               ''operator_public.pem'' \<mapsto> ''-----BEGIN PUBLIC KEY-----K'']\<rparr>"

definition second_env :: env where
  "second_env = \<lparr>sha256_hexdigest = hex_stub, uuid4 = 0xa1b2c3d40000400080000000000000ff,
     now_isoformat = ''2024-01-02T00:00:00'', pdf_failure = False\<rparr>"

definition digest_data :: "(string \<times> json) list" where
  "digest_data = [(''drive'', JStr ''Drive D:''), (''pre_hash'', JStr ''ABC''),
                  (''post_hash'', JStr ''0123'')]"

definition second_data :: "(string \<times> json) list" where
  "second_data = [(''drive'', JStr ''Drive E:'')]"

section \<open>Facts about the helpers\<close>

lemma length_to_hex: "length (to_hex k v) = k"
  by (induction k arbitrary: v) simp_all

lemma to_hex_numeral: "to_hex (numeral n) v = to_hex (pred_numeral n) (v div 16) @ [hex_digit (v mod 16)]"
proof -
  have "to_hex (Suc (pred_numeral n)) v = to_hex (pred_numeral n) (v div 16) @ [hex_digit (v mod 16)]"
    by (rule to_hex.simps)
  then show ?thesis
    by (simp only: numeral_eq_Suc [of n, symmetric])
qed

lemma length_str_uuid: "length (str_uuid u) = 36"
  by (simp add: str_uuid_def Let_def length_to_hex)

lemma take8_str_uuid: "take 8 (str_uuid u) = take 8 (to_hex 32 (unat u))"
  by (simp add: str_uuid_def Let_def length_to_hex)

lemma length_cert_id: "length (take 8 (str_uuid u)) = 8"
  by (simp add: length_str_uuid)

lemma hex_digits:
  "hex_digit 0 = CHR ''0''" "hex_digit 1 = CHR ''1''" "hex_digit 2 = CHR ''2''"
  "hex_digit 3 = CHR ''3''" "hex_digit 4 = CHR ''4''" "hex_digit 5 = CHR ''5''"
  "hex_digit 6 = CHR ''6''" "hex_digit 7 = CHR ''7''" "hex_digit 8 = CHR ''8''"
  "hex_digit 9 = CHR ''9''" "hex_digit 10 = CHR ''a''" "hex_digit 11 = CHR ''b''"
  "hex_digit 12 = CHR ''c''" "hex_digit 13 = CHR ''d''" "hex_digit 14 = CHR ''e''"
  "hex_digit 15 = CHR ''f''" "hex_digit (Suc 0) = CHR ''1''"
  unfolding hex_digit_def by simp_all

lemma hex32_example:
  "to_hex 32 (unat (0xa1b2c3d4e5f64a7b8c9d0e1f2a3b4c5d :: 128 word)) = ''a1b2c3d4e5f64a7b8c9d0e1f2a3b4c5d''"
  by (simp add: to_hex_numeral hex_digits)

lemma demo_env_fields:
  "sha256_hexdigest demo_env = hex_stub"
  "uuid4 demo_env = 0xa1b2c3d4e5f64a7b8c9d0e1f2a3b4c5d"
  "now_isoformat demo_env = ''2024-01-01T00:00:00''"
  "pdf_failure demo_env = False"
  by (simp_all add: demo_env_def)

lemma demo_cert_id: "cert_id_of demo_env = ''a1b2c3d4''"
  by (simp add: cert_id_of_def demo_env_fields take8_str_uuid to_hex_numeral hex_digits)

lemma demo_drive: "map_of demo_data ''drive'' = Some (JStr ''Drive D:'')"
  by (simp add: demo_data_def)

lemma issue_ok:
  assumes "map_of data ''drive'' = Some d" and "truthy d" and "\<not> pdf_failure e"
  shows "api_wipe_drive e reg (Parsed (JObj data)) =
     (Inr (issued_response e d), reg(cert_id_of e \<mapsto> issued_entry e d))"
  using assms
  by (simp add: api_wipe_drive_def generate_pdf_certificate_def CERT_DIR_def Let_def
      issued_response_def issued_entry_def cert_id_of_def)

lemma issue_cases:
  assumes "api_wipe_drive e reg body = (Inr resp, reg')" and "status resp = 200"
  shows "\<exists>data d. body = Parsed (JObj data) \<and> map_of data ''drive'' = Some d \<and> truthy d \<and> \<not> pdf_failure e"
proof (cases body)
  case Unparseable
  with assms show ?thesis by (simp add: api_wipe_drive_def)
next
  case (Parsed j)
  show ?thesis
  proof (cases j)
    case (JObj data)
    show ?thesis
    proof (cases "map_of data ''drive''")
      case None
      with assms Parsed JObj show ?thesis by (auto simp add: api_wipe_drive_def)
    next
      case (Some d)
      with assms Parsed JObj show ?thesis
        by (auto simp add: api_wipe_drive_def generate_pdf_certificate_def Let_def split: if_splits)
    qed
  qed (use assms Parsed in \<open>simp_all add: api_wipe_drive_def\<close>)
qed

lemma length_cert_id_of: "length (cert_id_of e) = 8"
  unfolding cert_id_of_def by (rule length_cert_id)

lemma issued_response_fields:
  "status (issued_response e d) = 200"
  "response_field (issued_response e d) ''certificate_id'' = Some (JStr (cert_id_of e))"
  "response_field (issued_response e d) ''signature'' = None"
  by (simp_all add: issued_response_def)

section \<open>C9: certificate ids have eight characters\<close>

text \<open>
  C9. Whenever \<^verbatim>\<open>api_wipe_drive\<close> answers 200, the \<^verbatim>\<open>certificate_id\<close> of the response
  is \<^verbatim>\<open>str(uuid.uuid4())[:8]\<close>, it has exactly 8 characters, and the registry holds an
  entry under it.
\<close>

theorem cert_id_eight_chars:
  assumes "api_wipe_drive e reg body = (Inr resp, reg')" and "status resp = 200"
  shows "response_field resp ''certificate_id'' = Some (JStr (cert_id_of e))
           \<and> length (cert_id_of e) = 8 \<and> reg' (cert_id_of e) \<noteq> None"
proof -
  from issue_cases [OF assms] obtain data d where
    b: "body = Parsed (JObj data)" and d: "map_of data ''drive'' = Some d" "truthy d"
    and p: "\<not> pdf_failure e" by blast
  from assms(1) have "(Inr resp, reg') = (Inr (issued_response e d), reg(cert_id_of e \<mapsto> issued_entry e d))"
    unfolding b issue_ok [OF d p] by simp
  then have r: "resp = issued_response e d" and g: "reg' = reg(cert_id_of e \<mapsto> issued_entry e d)"
    by simp_all
  have "reg' (cert_id_of e) \<noteq> None" unfolding g by simp
  then show ?thesis unfolding r by (simp add: length_cert_id_of issued_response_fields)
qed

text \<open>The demo request against an empty registry.\<close>

lemma demo_run:
  "api_wipe_drive demo_env Map.empty (Parsed (JObj demo_data)) =
     (Inr (issued_response demo_env (JStr ''Drive D:'')),
      [''a1b2c3d4'' \<mapsto> issued_entry demo_env (JStr ''Drive D:'')])"
  using issue_ok [OF demo_drive, of demo_env Map.empty]
  by (simp add: demo_env_fields demo_cert_id)

theorem cert_id_eight_chars_witness:
  "api_wipe_drive demo_env Map.empty (Parsed (JObj demo_data)) =
     (Inr (issued_response demo_env (JStr ''Drive D:'')),
      [''a1b2c3d4'' \<mapsto> issued_entry demo_env (JStr ''Drive D:'')])
   \<and> status (issued_response demo_env (JStr ''Drive D:'')) = 200
   \<and> response_field (issued_response demo_env (JStr ''Drive D:'')) ''certificate_id''
       = Some (JStr ''a1b2c3d4'')
   \<and> length ''a1b2c3d4'' = 8"
  using cert_id_eight_chars [OF demo_run issued_response_fields(1)] demo_run
  by (simp add: demo_cert_id issued_response_fields)

lemma second_env_fields:
  "sha256_hexdigest second_env = hex_stub"
  "uuid4 second_env = 0xa1b2c3d40000400080000000000000ff"
  "now_isoformat second_env = ''2024-01-02T00:00:00''"
  "pdf_failure second_env = False"
  by (simp_all add: second_env_def)

lemma second_cert_id: "cert_id_of second_env = ''a1b2c3d4''"
  by (simp add: cert_id_of_def second_env_fields take8_str_uuid to_hex_numeral hex_digits)

section \<open>C8: looking up an id\<close>

text \<open>
  C8. For an id that \<^verbatim>\<open>wipe_history\<close> does not hold, \<^verbatim>\<open>download_certificate\<close> answers
  404 (\<^verbatim>\<open>Certificate not found\<close>) and \<^verbatim>\<open>verify\<close> answers the 404 not-found page; for
  an id it holds, \<^verbatim>\<open>download_certificate\<close> sends the stored file and \<^verbatim>\<open>verify\<close> answers
  200 with the stored drive, timestamp and hashes.
\<close>

theorem lookup_absent_or_stored:
  "(wipe_history cert_id = None \<longrightarrow>
      download_certificate wipe_history cert_id = Abort 404 ''Certificate not found''
      \<and> verify wipe_history cert_id = HtmlResponse 404 (NotFoundPage cert_id))
   \<and> (\<forall>r. wipe_history cert_id = Some r \<longrightarrow>
      download_certificate wipe_history cert_id = SendFile (file_path r)
      \<and> verify wipe_history cert_id =
          HtmlResponse 200 (VerifiedPage cert_id (drive r) (timestamp r) (pre_hash r) (post_hash r)))"
  by (simp add: download_certificate_def verify_def)

theorem lookup_absent_or_stored_witness:
  "Map.empty ''deadbeef'' = (None :: entry option)
   \<and> status (download_certificate Map.empty ''deadbeef'') = 404
   \<and> verify Map.empty ''deadbeef'' = HtmlResponse 404 (NotFoundPage ''deadbeef'')
   \<and> [''a1b2c3d4'' \<mapsto> issued_entry demo_env (JStr ''Drive D:'')] ''a1b2c3d4''
       = Some (issued_entry demo_env (JStr ''Drive D:''))
   \<and> download_certificate [''a1b2c3d4'' \<mapsto> issued_entry demo_env (JStr ''Drive D:'')] ''a1b2c3d4''
       = SendFile ''certificates/erasex_cert_a1b2c3d4.pdf''"
  using lookup_absent_or_stored [of Map.empty "''deadbeef''"]
    lookup_absent_or_stored [of "[''a1b2c3d4'' \<mapsto> issued_entry demo_env (JStr ''Drive D:'')]" "''a1b2c3d4''"]
  by (simp add: issued_entry_def demo_cert_id)

section \<open>C2: verification reads its three files only\<close>

text \<open>
  C2. The outcome of \<^verbatim>\<open>verify_certificate\<close>, a result or an exception, is the same on
  any two machines that agree on the contents of the certificate file, the signature
  file and the public-key file, whatever the registry and the other files hold.
\<close>

theorem verify_certificate_inputs_only:
  assumes "files w1 cert_file = files w2 cert_file"
    and "files w1 sig_file = files w2 sig_file"
    and "files w1 pubkey_file = files w2 pubkey_file"
  shows "verify_certificate lib w1 cert_file sig_file pubkey_file
       = verify_certificate lib w2 cert_file sig_file pubkey_file"
  unfolding verify_certificate_def assms by (rule refl)

lemma demo_world_files:
  "files demo_world ''cert.json'' = Some ''{}''"
  "files demo_world ''cert.sig'' = Some ''K{}''"
  "files demo_world ''operator_public.pem'' = Some ''-----BEGIN PUBLIC KEY-----K''"
  by (simp_all add: demo_world_def)

lemma busy_world_files:
  "files busy_world ''cert.json'' = Some ''{}''"
  "files busy_world ''cert.sig'' = Some ''K{}''"
  "files busy_world ''operator_public.pem'' = Some ''-----BEGIN PUBLIC KEY-----K''"
  by (simp_all add: busy_world_def)

lemma demo_crypto_calls:
  "load_pem_public_key demo_crypto ''-----BEGIN PUBLIC KEY-----K'' = Inr ''K''"
  "load_pem_public_key demo_crypto ''not a key'' = Inl ValueError"
  "pubkey_verify demo_crypto ''K'' ''K{}'' ''{}'' = None"
  "pubkey_verify demo_crypto ''K'' ''K{}'' ''{x}'' = Some InvalidSignature"
  by (simp_all add: demo_crypto_def)

lemma demo_verify:
  "verify_certificate demo_crypto demo_world ''cert.json'' ''cert.sig'' ''operator_public.pem'' = Inr True"
  by (simp add: verify_certificate_def demo_world_files demo_crypto_calls)

theorem verify_certificate_inputs_only_witness:
  "server demo_world \<noteq> server busy_world
   \<and> files demo_world \<noteq> files busy_world
   \<and> verify_certificate demo_crypto busy_world ''cert.json'' ''cert.sig'' ''operator_public.pem''
       = Inr True"
proof -
  have "server demo_world ''a1b2c3d4'' \<noteq> server busy_world ''a1b2c3d4''"
    by (simp add: demo_world_def busy_world_def)
  then have s: "server demo_world \<noteq> server busy_world" by metis
  have "files demo_world ''notes.txt'' \<noteq> files busy_world ''notes.txt''"
    by (simp add: demo_world_def busy_world_def)
  then have f: "files demo_world \<noteq> files busy_world" by metis
  have "verify_certificate demo_crypto demo_world ''cert.json'' ''cert.sig'' ''operator_public.pem''
      = verify_certificate demo_crypto busy_world ''cert.json'' ''cert.sig'' ''operator_public.pem''"
    by (rule verify_certificate_inputs_only) (simp_all add: demo_world_files busy_world_files)
  with s f demo_verify show ?thesis by simp
qed

section \<open>C3: what verification does on invalid input\<close>

text \<open>
  C3, as stated, fails: a public-key file that does not load raises out of
  \<^verbatim>\<open>verify_certificate\<close>, since \<^verbatim>\<open>load_pem_public_key\<close> is called before the
  \<^verbatim>\<open>try\<close>. Here the key file holds \<^verbatim>\<open>not a key\<close> and the call ends in
  \<^verbatim>\<open>ValueError\<close>.
\<close>

theorem malformed_key_raises:
  "verify_certificate demo_crypto badkey_world ''cert.json'' ''cert.sig'' ''operator_public.pem''
     = Inl ValueError"
  by (simp add: verify_certificate_def badkey_world_def demo_crypto_calls)

text \<open>
  C3, amended. When the three files can be read: a public key that does not load makes
  \<^verbatim>\<open>verify_certificate\<close> raise the loader's exception, whatever the library and the
  exception are; and when the key loads, \<^verbatim>\<open>verify_certificate\<close> returns \<^verbatim>\<open>False\<close>
  exactly when the library's check raises \<^verbatim>\<open>InvalidSignature\<close>, and \<^verbatim>\<open>True\<close> exactly
  when the check returns.
\<close>

theorem verify_certificate_outcomes:
  assumes "files w cert_file = Some cert_data"
    and "files w sig_file = Some signature"
    and "files w pubkey_file = Some pem"
  shows "(\<forall>x. load_pem_public_key lib pem = Inl x \<longrightarrow>
            verify_certificate lib w cert_file sig_file pubkey_file = Inl x)
       \<and> (\<forall>pubkey. load_pem_public_key lib pem = Inr pubkey \<longrightarrow>
            (pubkey_verify lib pubkey signature cert_data = Some InvalidSignature
               \<longleftrightarrow> verify_certificate lib w cert_file sig_file pubkey_file = Inr False)
          \<and> (pubkey_verify lib pubkey signature cert_data = None
               \<longleftrightarrow> verify_certificate lib w cert_file sig_file pubkey_file = Inr True))"
proof (intro conjI allI impI)
  fix x
  assume "load_pem_public_key lib pem = Inl x"
  with assms show "verify_certificate lib w cert_file sig_file pubkey_file = Inl x"
    by (simp add: verify_certificate_def)
next
  fix pubkey
  assume "load_pem_public_key lib pem = Inr pubkey"
  with assms show "pubkey_verify lib pubkey signature cert_data = Some InvalidSignature
      \<longleftrightarrow> verify_certificate lib w cert_file sig_file pubkey_file = Inr False"
    by (auto simp add: verify_certificate_def split: option.splits)
next
  fix pubkey
  assume "load_pem_public_key lib pem = Inr pubkey"
  with assms show "pubkey_verify lib pubkey signature cert_data = None
      \<longleftrightarrow> verify_certificate lib w cert_file sig_file pubkey_file = Inr True"
    by (auto simp add: verify_certificate_def split: option.splits)
qed

lemma tampered_world_files:
  "files tampered_world ''cert.json'' = Some ''{x}''"
  "files tampered_world ''cert.sig'' = Some ''K{}''"
  "files tampered_world ''operator_public.pem'' = Some ''-----BEGIN PUBLIC KEY-----K''"
  by (simp_all add: tampered_world_def)

lemma badkey_world_files:
  "files badkey_world ''cert.json'' = Some ''{}''"
  "files badkey_world ''cert.sig'' = Some ''K{}''"
  "files badkey_world ''operator_public.pem'' = Some ''not a key''"
  by (simp_all add: badkey_world_def)

theorem verify_certificate_outcomes_witness:
  "files tampered_world ''cert.json'' = Some ''{x}''
   \<and> files tampered_world ''cert.sig'' = Some ''K{}''
   \<and> files tampered_world ''operator_public.pem'' = Some ''-----BEGIN PUBLIC KEY-----K''
   \<and> load_pem_public_key demo_crypto ''-----BEGIN PUBLIC KEY-----K'' = Inr ''K''
   \<and> pubkey_verify demo_crypto ''K'' ''K{}'' ''{x}'' = Some InvalidSignature
   \<and> verify_certificate demo_crypto tampered_world ''cert.json'' ''cert.sig'' ''operator_public.pem''
       = Inr False
   \<and> files badkey_world ''operator_public.pem'' = Some ''not a key''
   \<and> load_pem_public_key demo_crypto ''not a key'' = Inl ValueError
   \<and> verify_certificate demo_crypto badkey_world ''cert.json'' ''cert.sig'' ''operator_public.pem''
       = Inl ValueError"
  using verify_certificate_outcomes [OF tampered_world_files, of demo_crypto]
    verify_certificate_outcomes [OF badkey_world_files, of demo_crypto]
  by (simp add: tampered_world_files badkey_world_files demo_crypto_calls)

lemma length_hex_stub: "length (hex_stub b) = 2 * length b"
  by (induction b) (simp_all add: hex_stub_def length_to_hex)

lemma length_demo_bytes: "length demo_bytes = 27"
  by (simp add: demo_bytes_def)

lemma wiped_bytes_27: "wiped_bytes = replicate 27 (CHR 0x00)"
  by (simp add: wiped_bytes_def length_demo_bytes)

lemma issued_entry_fields:
  "drive (issued_entry e d) = d"
  "pre_hash (issued_entry e d) = sha256_hexdigest e demo_bytes"
  "post_hash (issued_entry e d) = sha256_hexdigest e wiped_bytes"
  "timestamp (issued_entry e d) = now_isoformat e"
  "file_path (issued_entry e d) = ''certificates/erasex_cert_'' @ cert_id_of e @ ''.pdf''"
  by (simp_all add: issued_entry_def)

lemma issued_response_hashes:
  "response_field (issued_response e d) ''pre_hash'' = Some (JStr (sha256_hexdigest e demo_bytes))"
  "response_field (issued_response e d) ''post_hash'' = Some (JStr (sha256_hexdigest e wiped_bytes))"
  by (simp_all add: issued_response_def)

section \<open>C1: issuing, then verifying\<close>

text \<open>
  C1, as stated, fails: issuance produces no signature. The response to the demo
  request has the five keys below and no \<^verbatim>\<open>signature\<close>, and a registry entry has no
  field for one.
\<close>

theorem issue_no_signature:
  "fst (api_wipe_drive demo_env Map.empty (Parsed (JObj demo_data))) =
     Inr (JsonResponse 200 (JObj
        [(''drive'', JStr ''Drive D:''),
         (''pre_hash'', JStr (hex_stub demo_bytes)),
         (''post_hash'', JStr (hex_stub wiped_bytes)),
         (''certificate_id'', JStr ''a1b2c3d4''),
         (''download_url'', JStr ''/download/a1b2c3d4'')]))
   \<and> response_field (issued_response demo_env (JStr ''Drive D:'')) ''signature'' = None"
  by (simp add: demo_run issued_response_def demo_env_fields demo_cert_id)

text \<open>
  C1, amended. For a request whose \<^verbatim>\<open>drive\<close> is truthy, when the PDF is written,
  \<^verbatim>\<open>api_wipe_drive\<close> answers 200 with no signature, and \<^verbatim>\<open>verify\<close> of the new id on
  the registry it leaves answers 200 with the page that shows the request's drive, the
  time of issue and the two hashes.
\<close>

theorem issue_then_verify:
  assumes "map_of data ''drive'' = Some d" and "truthy d" and "\<not> pdf_failure e"
  shows "fst (api_wipe_drive e wipe_history (Parsed (JObj data))) = Inr (issued_response e d)
       \<and> response_field (issued_response e d) ''signature'' = None
       \<and> verify (snd (api_wipe_drive e wipe_history (Parsed (JObj data)))) (cert_id_of e) =
           HtmlResponse 200 (VerifiedPage (cert_id_of e) d (now_isoformat e)
             (sha256_hexdigest e demo_bytes) (sha256_hexdigest e wiped_bytes))"
  unfolding issue_ok [OF assms]
  by (simp add: verify_def issued_entry_fields issued_response_fields)

theorem issue_then_verify_witness:
  "map_of demo_data ''drive'' = Some (JStr ''Drive D:'')
   \<and> truthy (JStr ''Drive D:'')
   \<and> \<not> pdf_failure demo_env
   \<and> verify (snd (api_wipe_drive demo_env Map.empty (Parsed (JObj demo_data)))) ''a1b2c3d4'' =
       HtmlResponse 200 (VerifiedPage ''a1b2c3d4'' (JStr ''Drive D:'') ''2024-01-01T00:00:00''
         (hex_stub demo_bytes) (hex_stub wiped_bytes))"
  using issue_then_verify [OF demo_drive, of demo_env Map.empty]
  by (simp add: demo_drive demo_env_fields demo_cert_id)

section \<open>C5: issuing under an id that is taken\<close>

lemma second_drive: "map_of second_data ''drive'' = Some (JStr ''Drive E:'')"
  by (simp add: second_data_def)

text \<open>
  C5, as stated, fails: \<^verbatim>\<open>wipe_history[cert_id] = ...\<close> is a plain assignment. A second
  issuance whose UUID starts with the same 8 characters answers 200 and leaves the
  second entry under the id.
\<close>

theorem reissue_not_rejected:
  "api_wipe_drive second_env [''a1b2c3d4'' \<mapsto> issued_entry demo_env (JStr ''Drive D:'')]
       (Parsed (JObj second_data)) =
     (Inr (issued_response second_env (JStr ''Drive E:'')),
      [''a1b2c3d4'' \<mapsto> issued_entry second_env (JStr ''Drive E:'')])
   \<and> issued_entry second_env (JStr ''Drive E:'') \<noteq> issued_entry demo_env (JStr ''Drive D:'')"
proof -
  have "drive (issued_entry second_env (JStr ''Drive E:'')) \<noteq> drive (issued_entry demo_env (JStr ''Drive D:''))"
    by (simp add: issued_entry_fields)
  then have "issued_entry second_env (JStr ''Drive E:'') \<noteq> issued_entry demo_env (JStr ''Drive D:'')"
    by metis
  then show ?thesis
    using issue_ok [OF second_drive, of second_env "[''a1b2c3d4'' \<mapsto> issued_entry demo_env (JStr ''Drive D:'')]"]
    by (simp add: second_env_fields second_cert_id)
qed

text \<open>
  C5, amended. Issuing under an id the registry already holds succeeds: the response is
  the 200 response, the id then maps to the new entry, and every other id is unchanged.
\<close>

theorem reissue_overwrites:
  assumes "wipe_history (cert_id_of e) = Some old"
    and "map_of data ''drive'' = Some d" and "truthy d" and "\<not> pdf_failure e"
  shows "fst (api_wipe_drive e wipe_history (Parsed (JObj data))) = Inr (issued_response e d)
       \<and> snd (api_wipe_drive e wipe_history (Parsed (JObj data))) (cert_id_of e)
           = Some (issued_entry e d)
       \<and> (\<forall>k. k \<noteq> cert_id_of e \<longrightarrow>
            snd (api_wipe_drive e wipe_history (Parsed (JObj data))) k = wipe_history k)"
  unfolding issue_ok [OF assms(2-4)] by simp

theorem reissue_overwrites_witness:
  "[''a1b2c3d4'' \<mapsto> issued_entry demo_env (JStr ''Drive D:'')] (cert_id_of second_env)
      = Some (issued_entry demo_env (JStr ''Drive D:''))
   \<and> map_of second_data ''drive'' = Some (JStr ''Drive E:'')
   \<and> truthy (JStr ''Drive E:'')
   \<and> \<not> pdf_failure second_env
   \<and> snd (api_wipe_drive second_env [''a1b2c3d4'' \<mapsto> issued_entry demo_env (JStr ''Drive D:'')]
          (Parsed (JObj second_data))) ''a1b2c3d4''
      = Some (issued_entry second_env (JStr ''Drive E:''))"
proof -
  have h: "[''a1b2c3d4'' \<mapsto> issued_entry demo_env (JStr ''Drive D:'')] (cert_id_of second_env)
      = Some (issued_entry demo_env (JStr ''Drive D:''))"
    by (simp add: second_cert_id)
  from reissue_overwrites [where wipe_history = "[''a1b2c3d4'' \<mapsto> issued_entry demo_env (JStr ''Drive D:'')]"
      and e = second_env and data = second_data and d = "JStr ''Drive E:''", OF h second_drive] h
  show ?thesis
    by (simp add: second_env_fields second_cert_id second_drive)
qed

section \<open>C6: digest strings in the request\<close>

lemma digest_drive: "map_of digest_data ''drive'' = Some (JStr ''Drive D:'')"
  by (simp add: digest_data_def)

text \<open>
  C6, as stated, fails: a request that carries \<^verbatim>\<open>pre_hash = "ABC"\<close> is answered 200, a
  record is created, and its \<^verbatim>\<open>pre_hash\<close> is the digest of the demo bytes.
\<close>

theorem malformed_digest_accepted:
  "map_of digest_data ''pre_hash'' = Some (JStr ''ABC'')
   \<and> api_wipe_drive demo_env Map.empty (Parsed (JObj digest_data)) =
     (Inr (issued_response demo_env (JStr ''Drive D:'')),
      [''a1b2c3d4'' \<mapsto> issued_entry demo_env (JStr ''Drive D:'')])
   \<and> pre_hash (issued_entry demo_env (JStr ''Drive D:'')) = hex_stub demo_bytes"
  using issue_ok [OF digest_drive, of demo_env Map.empty]
  by (simp add: demo_env_fields demo_cert_id issued_entry_fields digest_data_def)

text \<open>
  C6, amended. \<^verbatim>\<open>api_wipe_drive\<close> reads nothing of the request but its \<^verbatim>\<open>drive\<close>
  value: two object bodies with the same \<^verbatim>\<open>drive\<close> get the same outcome and leave the
  same registry, whatever digest strings they carry.
\<close>

theorem issue_reads_only_drive:
  assumes "map_of data ''drive'' = map_of data' ''drive''"
  shows "api_wipe_drive e wipe_history (Parsed (JObj data))
       = api_wipe_drive e wipe_history (Parsed (JObj data'))"
  using assms by (simp add: api_wipe_drive_def)

theorem issue_reads_only_drive_witness:
  "map_of demo_data ''drive'' = map_of digest_data ''drive''
   \<and> api_wipe_drive demo_env Map.empty (Parsed (JObj digest_data)) =
     (Inr (issued_response demo_env (JStr ''Drive D:'')),
      [''a1b2c3d4'' \<mapsto> issued_entry demo_env (JStr ''Drive D:'')])"
proof -
  have h: "map_of demo_data ''drive'' = map_of digest_data ''drive''"
    by (simp add: demo_drive digest_drive)
  from issue_reads_only_drive [OF h, of demo_env Map.empty] h show ?thesis
    by (simp add: demo_run)
qed

section \<open>C7: the two hashes of the demo\<close>

text \<open>
  C7, as stated, fails: \<^verbatim>\<open>demo_bytes\<close> has 27 bytes, so the buffer
  \<^verbatim>\<open>b"\x00" * len(demo_bytes)\<close> has 27 zero bytes, not 28. With the injective stand-in
  for the digest, \<^verbatim>\<open>post_hash\<close> differs from the digest of 28 zero bytes.
\<close>

theorem post_hash_not_of_28_zero_bytes:
  "length demo_bytes = 27
   \<and> wiped_bytes \<noteq> replicate 28 (CHR 0x00)
   \<and> snd (api_wipe_drive demo_env Map.empty (Parsed (JObj demo_data))) ''a1b2c3d4''
       = Some (issued_entry demo_env (JStr ''Drive D:''))
   \<and> post_hash (issued_entry demo_env (JStr ''Drive D:''))
       \<noteq> sha256_hexdigest demo_env (replicate 28 (CHR 0x00))"
proof -
  have "length wiped_bytes \<noteq> length (replicate 28 (CHR 0x00))"
    by (simp add: wiped_bytes_27)
  then have w: "wiped_bytes \<noteq> replicate 28 (CHR 0x00)" by metis
  have "length (hex_stub wiped_bytes) \<noteq> length (hex_stub (replicate 28 (CHR 0x00)))"
    by (simp add: length_hex_stub wiped_bytes_27)
  then have "hex_stub wiped_bytes \<noteq> hex_stub (replicate 28 (CHR 0x00))" by metis
  with w show ?thesis
    by (simp add: length_demo_bytes demo_run issued_entry_fields demo_env_fields)
qed

text \<open>
  C7, amended. Whenever \<^verbatim>\<open>api_wipe_drive\<close> answers 200, \<^verbatim>\<open>pre_hash\<close> is the digest of
  \<^verbatim>\<open>b"DemoSensitiveDataForHashing"\<close> and \<^verbatim>\<open>post_hash\<close> is the digest of 27 zero bytes,
  in the response and in the registry entry.
\<close>

theorem demo_hashes:
  assumes "api_wipe_drive e wipe_history body = (Inr resp, wipe_history')" and "status resp = 200"
  shows "response_field resp ''pre_hash''
           = Some (JStr (sha256_hexdigest e ''DemoSensitiveDataForHashing''))
       \<and> response_field resp ''post_hash''
           = Some (JStr (sha256_hexdigest e (replicate 27 (CHR 0x00))))
       \<and> map_option pre_hash (wipe_history' (cert_id_of e))
           = Some (sha256_hexdigest e ''DemoSensitiveDataForHashing'')
       \<and> map_option post_hash (wipe_history' (cert_id_of e))
           = Some (sha256_hexdigest e (replicate 27 (CHR 0x00)))"
proof -
  from issue_cases [OF assms] obtain data d where
    b: "body = Parsed (JObj data)" and d: "map_of data ''drive'' = Some d" "truthy d"
    and p: "\<not> pdf_failure e" by blast
  from assms(1) have "(Inr resp, wipe_history') =
      (Inr (issued_response e d), wipe_history(cert_id_of e \<mapsto> issued_entry e d))"
    unfolding b issue_ok [OF d p] by simp
  then have r: "resp = issued_response e d"
    and g: "wipe_history' = wipe_history(cert_id_of e \<mapsto> issued_entry e d)"
    by simp_all
  have db: "demo_bytes = ''DemoSensitiveDataForHashing''" by (simp add: demo_bytes_def)
  show ?thesis unfolding r g
    by (simp add: issued_response_hashes issued_entry_fields wiped_bytes_27 [symmetric] db [symmetric])
qed

theorem demo_hashes_witness:
  "api_wipe_drive demo_env Map.empty (Parsed (JObj demo_data)) =
     (Inr (issued_response demo_env (JStr ''Drive D:'')),
      [''a1b2c3d4'' \<mapsto> issued_entry demo_env (JStr ''Drive D:'')])
   \<and> status (issued_response demo_env (JStr ''Drive D:'')) = 200
   \<and> response_field (issued_response demo_env (JStr ''Drive D:'')) ''post_hash''
       = Some (JStr (hex_stub (replicate 27 (CHR 0x00))))"
  using demo_hashes [OF demo_run issued_response_fields(1)] demo_run
  by (simp add: issued_response_fields demo_env_fields)

section \<open>C10: requests without a drive\<close>

text \<open>
  C10 at a body that is a JSON array: \<^verbatim>\<open>data.get\<close> raises \<^verbatim>\<open>AttributeError\<close>, which is
  no 400 response; the registry is unchanged.
\<close>

theorem non_object_body_raises:
  "api_wipe_drive e wipe_history (Parsed (JArr [])) = (Inl AttributeError, wipe_history)"
  by (simp add: api_wipe_drive_def)

text \<open>An object body without a truthy \<^verbatim>\<open>drive\<close> gets the 400 response, and every call
  that does not answer 200 leaves the registry as it was.\<close>

lemma object_without_drive_400:
  assumes "\<forall>d. map_of data ''drive'' = Some d \<longrightarrow> \<not> truthy d"
  shows "api_wipe_drive e wipe_history (Parsed (JObj data)) =
     (Inr (JsonResponse 400 (JObj [(''error'', JStr error_message)])), wipe_history)"
  using assms by (simp add: api_wipe_drive_def split: option.splits)

lemma failed_issue_keeps_registry:
  assumes "\<forall>resp. fst (api_wipe_drive e wipe_history body) = Inr resp \<longrightarrow> status resp \<noteq> 200"
  shows "snd (api_wipe_drive e wipe_history body) = wipe_history"
  using assms
  by (auto simp add: api_wipe_drive_def generate_pdf_certificate_def Let_def
      split: request_body.splits json.splits option.splits if_splits)

end
